theory Spec2Isabelle
  imports Complex_Main "HOL-Library.Sublist"
begin

section \<open>JavaScript values used by the accounts report page\<close>

text \<open>
  The page \<^verbatim>\<open>dashboards/accounts/pages/Reports.tsx\<close> computes with JavaScript numbers.
  Amounts, percentages and day averages of the report rows are modelled as \<^typ>\<open>real\<close>.
  The derived day count comes from \<^verbatim>\<open>Date\<close> arithmetic, where the time value of an
  invalid date is NaN and every arithmetic operation passes NaN on; there the number is
  either an integer (milliseconds, days) or NaN.
\<close>

datatype jsnum = Num int | NaN

text \<open>\<^verbatim>\<open>a - b\<close> on such numbers.\<close>

fun js_minus :: "jsnum \<Rightarrow> jsnum \<Rightarrow> jsnum" where
  "js_minus (Num a) (Num b) = Num (a - b)"
| "js_minus _ _ = NaN"

text \<open>
  \<^verbatim>\<open>Math.floor(a / b)\<close> for an integer \<open>a\<close> and a positive integer constant \<open>b\<close>:
  the floor of the quotient, which is \<open>div\<close> on \<^typ>\<open>int\<close>; NaN stays NaN. Time values
  are integers far below \<open>2^53\<close>, where the rounding of the quotient does not reach the
  next integer, so the floor of the computed quotient is the floor of the exact one.
\<close>

fun Math_floor_div :: "jsnum \<Rightarrow> int \<Rightarrow> jsnum" where
  "Math_floor_div (Num a) b = Num (a div b)"
| "Math_floor_div NaN b = NaN"

text \<open>\<^verbatim>\<open>Math.max(a, b)\<close>: NaN as soon as one argument is NaN.\<close>

fun Math_max :: "jsnum \<Rightarrow> jsnum \<Rightarrow> jsnum" where
  "Math_max (Num a) (Num b) = Num (max a b)"
| "Math_max _ _ = NaN"

text \<open>A number that is not NaN and not below zero.\<close>

fun nonneg_number :: "jsnum \<Rightarrow> bool" where
  "nonneg_number (Num a) = (0 \<le> a)"
| "nonneg_number NaN = False"

section \<open>Strings and arrays\<close>

text \<open>
  \<^verbatim>\<open>String.prototype.toLowerCase\<close>, on the ASCII letters; every other character is left
  as it is.
\<close>

definition toLowerCase_char :: "char \<Rightarrow> char" where
  "toLowerCase_char c =
     (case map_of (zip ''ABCDEFGHIJKLMNOPQRSTUVWXYZ'' ''abcdefghijklmnopqrstuvwxyz'') c of
        Some l \<Rightarrow> l
      | None \<Rightarrow> c)"

definition toLowerCase :: "string \<Rightarrow> string" where
  "toLowerCase s = map toLowerCase_char s"

text \<open>\<^verbatim>\<open>s.includes(sub)\<close>: \<open>sub\<close> occurs in \<open>s\<close> at some position.\<close>

fun String_includes :: "string \<Rightarrow> string \<Rightarrow> bool" where
  "String_includes [] sub = (sub = [])"
| "String_includes (c # cs) sub = (prefix sub (c # cs) \<or> String_includes cs sub)"

text \<open>\<^verbatim>\<open>Array.prototype.join(sep)\<close> on an array of strings.\<close>

fun Array_join :: "string \<Rightarrow> string list \<Rightarrow> string" where
  "Array_join sep [] = []"
| "Array_join sep [x] = x"
| "Array_join sep (x # y # ys) = x @ sep @ Array_join sep (y # ys)"

text \<open>
  \<^verbatim>\<open>Array.prototype.slice(start, end)\<close>: a negative index counts from the end, both indices
  are clamped to the array, and an empty array is returned when the start is not before the
  end. It never throws.
\<close>

definition slice :: "'a list \<Rightarrow> int \<Rightarrow> int \<Rightarrow> 'a list" where
  "slice xs start fin =
     (let len = int (length xs);
          k = (if start < 0 then max (len + start) 0 else min start len);
          final = (if fin < 0 then max (len + fin) 0 else min fin len)
      in take (nat (final - k)) (drop (nat k) xs))"

text \<open>
  \<^verbatim>\<open>Array.from(new Set(xs))\<close>: the distinct elements of \<open>xs\<close> in the order of their first
  occurrence.
\<close>

definition Array_from_Set :: "'a list \<Rightarrow> 'a list" where
  "Array_from_Set xs = foldl (\<lambda>seen x. if x \<in> set seen then seen else seen @ [x]) [] xs"

text \<open>\<^verbatim>\<open>x || 0\<close> and \<^verbatim>\<open>x || []\<close> for an optional field (\<open>None\<close> is a missing one).\<close>

definition or_zero :: "real option \<Rightarrow> real" where
  "or_zero x = (case x of None \<Rightarrow> 0 | Some v \<Rightarrow> v)"

definition or_empty :: "'a list option \<Rightarrow> 'a list" where
  "or_empty x = (case x of None \<Rightarrow> [] | Some v \<Rightarrow> v)"

section \<open>Row types\<close>

record PaymentAgingRecord =
  vendor :: string
  outstandingAmount :: real
  avgDaysPending :: real
  oldestInvoiceDate :: string
  oldestInvoiceDays :: jsnum

record ComplianceRecord =
  c_vendor :: string
  totalInvoices :: real
  compliantPercentage :: real
  issuesFound :: real

record SLABreachRecord =
  slaType :: string
  breachCount :: real
  avgDelayDays :: real

datatype TimeRange = Weekly | Monthly | Yearly

record TrendPoint =
  period :: string
  t_released :: real
  t_pending :: real


section \<open>Derived days\<close>

text \<open>
  \<^verbatim>\<open>
  const computeDaysOld = (isoDate: string | null): number => {
    if (!isoDate) return 0
    const d = new Date(isoDate)
    const ms = Date.now() - d.getTime()
    return Math.max(0, Math.floor(ms / (1000 * 60 * 60 * 24)))
  }
  \<close>
  The string parser of \<^verbatim>\<open>Date\<close> belongs to the language, not to the page: it is the
  parameter \<open>getTime\<close>, giving the time value of \<^verbatim>\<open>new Date(s)\<close> in milliseconds, NaN for
  a string that does not parse. \<open>now\<close> is \<^verbatim>\<open>Date.now()\<close>. \<open>None\<close> is \<^verbatim>\<open>null\<close>; the empty
  string is falsy as well.
\<close>

definition computeDaysOld :: "(string \<Rightarrow> jsnum) \<Rightarrow> int \<Rightarrow> string option \<Rightarrow> jsnum" where
  "computeDaysOld getTime now isoDate =
     (case isoDate of
        None \<Rightarrow> Num 0
      | Some s \<Rightarrow>
          if s = [] then Num 0
          else (let d = getTime s;
                    ms = js_minus (Num now) d
                in Math_max (Num 0) (Math_floor_div ms (1000 * 60 * 60 * 24))))"

text \<open>
  A few date strings with the time values \<^verbatim>\<open>Date\<close> gives them; every other string of this
  table counts as unparseable. It serves as a concrete \<open>getTime\<close> in examples.
\<close>

definition sampleDates :: "(string \<times> int) list" where
  "sampleDates =
     [(''1970-01-01'', 0),
      (''2024-01-01T00:00:00.000Z'', 1704067200000),
      (''2024-01-11T12:00:00.000Z'', 1704974400000)]"

definition sampleGetTime :: "string \<Rightarrow> jsnum" where
  "sampleGetTime s = (case map_of sampleDates s of Some t \<Rightarrow> Num t | None \<Rightarrow> NaN)"

section \<open>Aging status buckets\<close>

text \<open>
  The callback of the status filter (lines 296 to 301), with the selected bucket as a
  parameter:
  \<^verbatim>\<open>
  if (agingStatusFilter === 'overdue') return item.avgDaysPending > 30
  if (agingStatusFilter === 'warning') return item.avgDaysPending > 15 && item.avgDaysPending <= 30
  if (agingStatusFilter === 'good') return item.avgDaysPending <= 15
  return true
  \<close>
\<close>

definition agingStatusPred :: "string \<Rightarrow> PaymentAgingRecord \<Rightarrow> bool" where
  "agingStatusPred agingStatusFilter item =
     (if agingStatusFilter = ''overdue'' then avgDaysPending item > 30
      else if agingStatusFilter = ''warning'' then avgDaysPending item > 15 \<and> avgDaysPending item \<le> 30
      else if agingStatusFilter = ''good'' then avgDaysPending item \<le> 15
      else True)"

text \<open>
  \<^verbatim>\<open>filteredPaymentAging\<close> (lines 286 to 305): the vendor text slot is applied when the
  text is not empty, the status slot when it is not \<^verbatim>\<open>'all'\<close>.
\<close>

definition filteredPaymentAging ::
    "string \<Rightarrow> string \<Rightarrow> PaymentAgingRecord list \<Rightarrow> PaymentAgingRecord list" where
  "filteredPaymentAging agingVendorFilter agingStatusFilter agingData =
     (let filtered = agingData;
          filtered = (if agingVendorFilter \<noteq> []
                      then filter (\<lambda>item. String_includes (toLowerCase (vendor item))
                                                            (toLowerCase agingVendorFilter)) filtered
                      else filtered);
          filtered = (if agingStatusFilter \<noteq> ''all''
                      then filter (agingStatusPred agingStatusFilter) filtered
                      else filtered)
      in filtered)"

section \<open>Compliance filter\<close>

text \<open>The callback of the compliance level filter (lines 318 to 323).\<close>

definition complianceLevelPred :: "string \<Rightarrow> ComplianceRecord \<Rightarrow> bool" where
  "complianceLevelPred complianceFilter item =
     (if complianceFilter = ''high'' then compliantPercentage item \<ge> 95
      else if complianceFilter = ''medium''
        then compliantPercentage item \<ge> 85 \<and> compliantPercentage item < 95
      else if complianceFilter = ''low'' then compliantPercentage item < 85
      else True)"

definition filteredCompliance ::
    "string \<Rightarrow> string \<Rightarrow> ComplianceRecord list \<Rightarrow> ComplianceRecord list" where
  "filteredCompliance complianceVendorFilter complianceFilter complianceData =
     (let filtered = complianceData;
          filtered = (if complianceVendorFilter \<noteq> []
                      then filter (\<lambda>item. String_includes (toLowerCase (c_vendor item))
                                                            (toLowerCase complianceVendorFilter)) filtered
                      else filtered);
          filtered = (if complianceFilter \<noteq> ''all''
                      then filter (complianceLevelPred complianceFilter) filtered
                      else filtered)
      in filtered)"

section \<open>SLA breach filter\<close>

text \<open>The callbacks of the breach severity and delay severity filters (lines 340 to 355).\<close>

definition breachSeverityPred :: "string \<Rightarrow> SLABreachRecord \<Rightarrow> bool" where
  "breachSeverityPred slaBreachSeverity item =
     (if slaBreachSeverity = ''high'' then breachCount item \<ge> 12
      else if slaBreachSeverity = ''medium'' then breachCount item \<ge> 8 \<and> breachCount item < 12
      else if slaBreachSeverity = ''low'' then breachCount item < 8
      else True)"

definition delaySeverityPred :: "string \<Rightarrow> SLABreachRecord \<Rightarrow> bool" where
  "delaySeverityPred slaDelaySeverity item =
     (if slaDelaySeverity = ''critical'' then avgDelayDays item > 5
      else if slaDelaySeverity = ''moderate'' then avgDelayDays item > 3 \<and> avgDelayDays item \<le> 5
      else if slaDelaySeverity = ''minor'' then avgDelayDays item \<le> 3
      else True)"

definition filteredSLABreaches ::
    "string \<Rightarrow> string \<Rightarrow> string \<Rightarrow> SLABreachRecord list \<Rightarrow> SLABreachRecord list" where
  "filteredSLABreaches slaTypeFilter slaBreachSeverity slaDelaySeverity slaBreachData =
     (let filtered = slaBreachData;
          filtered = (if slaTypeFilter \<noteq> ''all''
                      then filter (\<lambda>item. slaType item = slaTypeFilter) filtered
                      else filtered);
          filtered = (if slaBreachSeverity \<noteq> ''all''
                      then filter (breachSeverityPred slaBreachSeverity) filtered
                      else filtered);
          filtered = (if slaDelaySeverity \<noteq> ''all''
                      then filter (delaySeverityPred slaDelaySeverity) filtered
                      else filtered)
      in filtered)"

section \<open>Filter slots, as the specification words them\<close>

text \<open>
  A row satisfies the criteria when it satisfies every slot, and a slot at its neutral value
  (the empty text, or \<^verbatim>\<open>'all'\<close>) is satisfied by every row. A text slot is a
  case-insensitive substring match, a bucket slot the named numeric range.
\<close>

definition text_slot :: "string \<Rightarrow> string \<Rightarrow> bool" where
  "text_slot criterion field_value =
     (criterion = [] \<or> String_includes (toLowerCase field_value) (toLowerCase criterion))"

definition aging_row_satisfies :: "string \<Rightarrow> string \<Rightarrow> PaymentAgingRecord \<Rightarrow> bool" where
  "aging_row_satisfies vendor_text status r =
     (text_slot vendor_text (vendor r) \<and> (status = ''all'' \<or> agingStatusPred status r))"

definition compliance_row_satisfies :: "string \<Rightarrow> string \<Rightarrow> ComplianceRecord \<Rightarrow> bool" where
  "compliance_row_satisfies vendor_text level r =
     (text_slot vendor_text (c_vendor r) \<and> (level = ''all'' \<or> complianceLevelPred level r))"

definition sla_row_satisfies :: "string \<Rightarrow> string \<Rightarrow> string \<Rightarrow> SLABreachRecord \<Rightarrow> bool" where
  "sla_row_satisfies type_slot breach_slot delay_slot r =
     ((type_slot = ''all'' \<or> slaType r = type_slot)
      \<and> (breach_slot = ''all'' \<or> breachSeverityPred breach_slot r)
      \<and> (delay_slot = ''all'' \<or> delaySeverityPred delay_slot r))"

text \<open>
  The status bucket of a number of pending days in the specification's words: overdue
  above 30, warning above 15 and up to 30, good up to 15.
\<close>

definition status_bucket :: "real \<Rightarrow> string" where
  "status_bucket days =
     (if days > 30 then ''overdue'' else if days > 15 then ''warning'' else ''good'')"

section \<open>Pagination\<close>

text \<open>
  The same four lines window each of the three tables (lines 362 to 377):
  \<^verbatim>\<open>
  const agingTotalPages = Math.ceil(filteredPaymentAging.length / itemsPerPage)
  const agingStartIndex = (agingCurrentPage - 1) * itemsPerPage
  const agingEndIndex = Math.min(agingStartIndex + itemsPerPage, filteredPaymentAging.length)
  const paginatedPaymentAging = filteredPaymentAging.slice(agingStartIndex, agingEndIndex)
  \<close>
  They are written once here, over the length or the filtered rows, the current page and
  the page size; the page fixes the size at 10.
\<close>

definition itemsPerPage :: int where
  "itemsPerPage = 10"

definition totalPages :: "nat \<Rightarrow> int \<Rightarrow> int" where
  "totalPages len pageSize = \<lceil>real len / real_of_int pageSize\<rceil>"

definition startIndex :: "int \<Rightarrow> int \<Rightarrow> int" where
  "startIndex currentPage pageSize = (currentPage - 1) * pageSize"

definition endIndex :: "nat \<Rightarrow> int \<Rightarrow> int \<Rightarrow> int" where
  "endIndex len currentPage pageSize = min (startIndex currentPage pageSize + pageSize) (int len)"

definition paginate :: "'a list \<Rightarrow> int \<Rightarrow> int \<Rightarrow> 'a list" where
  "paginate filtered currentPage pageSize =
     slice filtered (startIndex currentPage pageSize)
       (endIndex (length filtered) currentPage pageSize)"

section \<open>Delimited-text export\<close>

text \<open>
  \<^verbatim>\<open>toCSV\<close> takes rows of type \<^verbatim>\<open>Record<string, unknown>\<close>. A row is an association
  list from keys to values, in the order \<^verbatim>\<open>Object.keys\<close> lists them. A value is
  \<^verbatim>\<open>undefined\<close>, \<^verbatim>\<open>null\<close> or a proper value, whose text \<^verbatim>\<open>String(val)\<close> is left to the
  parameter \<open>str\<close>. Reading a key that the row does not have gives \<^verbatim>\<open>undefined\<close>.
\<close>

datatype 'v jsval = Undefined | Null | Val 'v

type_synonym 'v row = "(string \<times> 'v jsval) list"

definition Object_keys :: "'v row \<Rightarrow> string list" where
  "Object_keys r = map fst r"

definition get_prop :: "'v row \<Rightarrow> string \<Rightarrow> 'v jsval" where
  "get_prop r h = (case map_of r h of None \<Rightarrow> Undefined | Some v \<Rightarrow> v)"

text \<open>\<^verbatim>\<open>s.replace(/"/g, '""')\<close>: every double quote (character 0x22) is doubled.\<close>

definition replace_quotes :: "string \<Rightarrow> string" where
  "replace_quotes s = concat (map (\<lambda>c. if c = CHR 0x22 then [CHR 0x22, CHR 0x22] else [c]) s)"

text \<open>
  \<^verbatim>\<open>
  const escapeCSV = (val: unknown) => {
    const s = val === undefined || val === null ? '' : String(val)
    return s.includes(',') || s.includes('"') || s.includes('\n')
      ? '"' + s.replace(/"/g, '""') + '"'
      : s
  }
  \<close>
\<close>

definition escapeCSV :: "('v \<Rightarrow> string) \<Rightarrow> 'v jsval \<Rightarrow> string" where
  "escapeCSV str val =
     (let s = (case val of Undefined \<Rightarrow> [] | Null \<Rightarrow> [] | Val v \<Rightarrow> str v)
      in if String_includes s '','' \<or> String_includes s [CHR 0x22] \<or> String_includes s [CHR 0x0A]
         then [CHR 0x22] @ replace_quotes s @ [CHR 0x22]
         else s)"

text \<open>
  The header list of \<^verbatim>\<open>toCSV\<close>: the caller's order when one is given and not empty,
  otherwise the keys of all rows, each once, in first-seen order.
\<close>

definition toCSV_headers :: "'v row list \<Rightarrow> string list option \<Rightarrow> string list" where
  "toCSV_headers rows headerOrder =
     (case headerOrder of
        Some hs \<Rightarrow> if length hs > 0 then hs
                   else Array_from_Set (concat (map Object_keys rows))
      | None \<Rightarrow> Array_from_Set (concat (map Object_keys rows)))"

text \<open>
  \<^verbatim>\<open>toCSV\<close> (lines 67 to 87). The loop pushes one line per row after the header line; the
  header names are joined as they are, without \<^verbatim>\<open>escapeCSV\<close>.
\<close>

definition toCSV :: "('v \<Rightarrow> string) \<Rightarrow> 'v row list \<Rightarrow> string list option \<Rightarrow> string" where
  "toCSV str rows headerOrder =
     (if rows = [] then []
      else
        (let headers = toCSV_headers rows headerOrder;
             lines = [Array_join '','' headers];
             lines = foldl (\<lambda>lines row.
                              lines @ [Array_join '',''
                                         (map (\<lambda>h. escapeCSV str (get_prop row h)) headers)])
                       lines rows
         in Array_join [CHR 0x0A] lines))"

text \<open>
  The export handlers of the three tables build their rows from the filtered (not the
  paginated) records and pass a fixed header order. A cell is a string, a number, or the
  derived day count.
\<close>

datatype cell = Text string | Number real | Days jsnum

definition agingExportRow :: "PaymentAgingRecord \<Rightarrow> cell row" where
  "agingExportRow r =
     [(''vendor'', Val (Text (vendor r))),
      (''outstandingAmount'', Val (Number (outstandingAmount r))),
      (''avgDaysPending'', Val (Number (avgDaysPending r))),
      (''oldestInvoiceDate'', Val (Text (oldestInvoiceDate r))),
      (''oldestInvoiceDays'', Val (Days (oldestInvoiceDays r)))]"

definition agingExportCSV :: "(cell \<Rightarrow> string) \<Rightarrow> PaymentAgingRecord list \<Rightarrow> string" where
  "agingExportCSV str filtered =
     toCSV str (map agingExportRow filtered)
       (Some [''vendor'', ''outstandingAmount'', ''avgDaysPending'', ''oldestInvoiceDate'',
              ''oldestInvoiceDays''])"

definition complianceExportRow :: "ComplianceRecord \<Rightarrow> cell row" where
  "complianceExportRow r =
     [(''vendor'', Val (Text (c_vendor r))),
      (''totalInvoices'', Val (Number (totalInvoices r))),
      (''compliantPercentage'', Val (Number (compliantPercentage r))),
      (''issuesFound'', Val (Number (issuesFound r)))]"

definition complianceExportCSV :: "(cell \<Rightarrow> string) \<Rightarrow> ComplianceRecord list \<Rightarrow> string" where
  "complianceExportCSV str filtered =
     toCSV str (map complianceExportRow filtered)
       (Some [''vendor'', ''totalInvoices'', ''compliantPercentage'', ''issuesFound''])"

definition slaExportRow :: "SLABreachRecord \<Rightarrow> cell row" where
  "slaExportRow r =
     [(''slaType'', Val (Text (slaType r))),
      (''breachCount'', Val (Number (breachCount r))),
      (''avgDelayDays'', Val (Number (avgDelayDays r)))]"

definition slaExportCSV :: "(cell \<Rightarrow> string) \<Rightarrow> SLABreachRecord list \<Rightarrow> string" where
  "slaExportCSV str filtered =
     toCSV str (map slaExportRow filtered) (Some [''slaType'', ''breachCount'', ''avgDelayDays''])"

section \<open>Reading delimited text back\<close>

text \<open>
  Modelled from the spec: the reader of delimited text, which the page does not have. The
  round trip of the specification is stated against this reader, which follows the
  specification's words: the same delimiter (comma),
  the same quote character, records separated by newlines; a field that starts with a
  quote runs to its closing quote, and a doubled quote inside it stands for one quote.
  The reader goes through the text once. Its state is the finished records and the
  finished fields of the current record (both newest first), the characters of the current
  field (newest first) and a mode.
\<close>

datatype csv_mode = FieldStart | Unquoted | Quoted | QuoteSeen

type_synonym csv_state = "string list list \<times> string list \<times> string \<times> csv_mode"

text \<open>
  Modelled from the spec: one step of the reader. Inside quotes only a quote is special;
  a quote right after a closing quote is a doubled quote and reopens the field; outside
  quotes a comma ends the field and a newline ends the record; a quote opens a quoted
  field only at the start of a field.
\<close>

fun csv_step :: "csv_state \<Rightarrow> char \<Rightarrow> csv_state" where
  "csv_step (recs, flds, cur, m) c =
     (if m = Quoted then
        (if c = CHR 0x22 then (recs, flds, cur, QuoteSeen) else (recs, flds, c # cur, Quoted))
      else if m = QuoteSeen \<and> c = CHR 0x22 then (recs, flds, c # cur, Quoted)
      else if c = CHR '','' then (recs, rev cur # flds, [], FieldStart)
      else if c = CHR 0x0A then (rev (rev cur # flds) # recs, [], [], FieldStart)
      else if m = FieldStart \<and> c = CHR 0x22 then (recs, flds, cur, Quoted)
      else (recs, flds, c # cur, Unquoted))"

text \<open>
  Modelled from the spec: the reader. The end of the text ends the last field and the last
  record, so the empty text is one record with one empty field.
\<close>

definition parseCSV :: "string \<Rightarrow> string list list" where
  "parseCSV input =
     (case foldl csv_step ([], [], [], FieldStart) input of
        (recs, flds, cur, m) \<Rightarrow> rev (rev (rev cur # flds) # recs))"

text \<open>
  The serialization rule in the specification's words: the text of a field value (empty for
  \<^verbatim>\<open>null\<close> and \<^verbatim>\<open>undefined\<close>), and that text wrapped in quotes with its quotes doubled
  when it contains the delimiter, a quote or a newline.
\<close>

definition field_text :: "('v \<Rightarrow> string) \<Rightarrow> 'v jsval \<Rightarrow> string" where
  "field_text str val = (case val of Undefined \<Rightarrow> [] | Null \<Rightarrow> [] | Val v \<Rightarrow> str v)"

definition plain_text :: "string \<Rightarrow> bool" where
  "plain_text s = (CHR '','' \<notin> set s \<and> CHR 0x22 \<notin> set s \<and> CHR 0x0A \<notin> set s)"

definition quoted_text :: "string \<Rightarrow> string" where
  "quoted_text s = (if plain_text s then s else CHR 0x22 # replace_quotes s @ [CHR 0x22])"

definition csv_line :: "string list \<Rightarrow> string" where
  "csv_line vals = Array_join '','' (map quoted_text vals)"

text \<open>Rows of strings with a comma, quotes and a newline in their values.\<close>

definition sampleRows :: "string row list" where
  "sampleRows =
     [[(''vendor'', Val ''Acme, Inc.''),
       (''note'', Val (''say '' @ [CHR 0x22] @ ''hi'' @ [CHR 0x22]))],
      [(''vendor'', Val (''two'' @ [CHR 0x0A] @ ''lines'')), (''note'', Null)],
      [(''vendor'', Val ''plain'')]]"

section \<open>Component state\<close>

text \<open>
  The state of \<^verbatim>\<open>AccountsReports\<close>: one field for each \<^verbatim>\<open>useState\<close> of the component
  (lines 157 to 183, 257, 258 and 392), under the name of its state variable. There is a
  single \<^verbatim>\<open>loading\<close> flag; the bodies of all three tables read it.
\<close>

record reports_state =
  timeRange :: TimeRange
  loading :: bool
  agingVendorFilter :: string
  agingStatusFilter :: string
  agingData :: "PaymentAgingRecord list"
  complianceVendorFilter :: string
  complianceFilter :: string
  complianceData :: "ComplianceRecord list"
  overallCompliance :: real
  slaTypeFilter :: string
  slaBreachSeverity :: string
  slaDelaySeverity :: string
  slaBreachData :: "SLABreachRecord list"
  totalSlaBreaches :: real
  avgDelayAcrossAll :: real
  agingCurrentPage :: int
  complianceCurrentPage :: int
  slaCurrentPage :: int
  paymentsReleased :: real
  pendingPayments :: real
  paymentChartData :: "TrendPoint list"

definition initialState :: reports_state where
  "initialState =
     \<lparr> timeRange = Weekly, loading = False,
       agingVendorFilter = [], agingStatusFilter = ''all'', agingData = [],
       complianceVendorFilter = [], complianceFilter = ''all'', complianceData = [],
       overallCompliance = 0,
       slaTypeFilter = ''all'', slaBreachSeverity = ''all'', slaDelaySeverity = ''all'',
       slaBreachData = [], totalSlaBreaches = 0, avgDelayAcrossAll = 0,
       agingCurrentPage = 1, complianceCurrentPage = 1, slaCurrentPage = 1,
       paymentsReleased = 0, pendingPayments = 0, paymentChartData = [] \<rparr>"

subsection \<open>Event handlers\<close>

text \<open>
  The handlers the markup attaches to the filter inputs, the Reset and Clear All buttons
  and the pagination controls of each table, and the time-range buttons. A handler is the
  batch of state setters it calls. Reset sets the page to 1 together with the filters;
  Clear All and the single setters leave the page to the effect below.
\<close>

datatype table_action =
    SetAgingVendorFilter string
  | SetAgingStatusFilter string
  | ResetAging
  | ClearAllAging
  | SetAgingCurrentPage int
  | SetComplianceVendorFilter string
  | SetComplianceFilter string
  | ResetCompliance
  | ClearAllCompliance
  | SetComplianceCurrentPage int
  | SetSlaTypeFilter string
  | SetSlaBreachSeverity string
  | SetSlaDelaySeverity string
  | ResetSla
  | ClearAllSla
  | SetSlaCurrentPage int

datatype action = Table table_action | SetTimeRange TimeRange

fun handleTable :: "table_action \<Rightarrow> reports_state \<Rightarrow> reports_state" where
  "handleTable (SetAgingVendorFilter v) s = s\<lparr>agingVendorFilter := v\<rparr>"
| "handleTable (SetAgingStatusFilter v) s = s\<lparr>agingStatusFilter := v\<rparr>"
| "handleTable ResetAging s =
     s\<lparr>agingVendorFilter := [], agingStatusFilter := ''all'', agingCurrentPage := 1\<rparr>"
| "handleTable ClearAllAging s = s\<lparr>agingVendorFilter := [], agingStatusFilter := ''all''\<rparr>"
| "handleTable (SetAgingCurrentPage n) s = s\<lparr>agingCurrentPage := n\<rparr>"
| "handleTable (SetComplianceVendorFilter v) s = s\<lparr>complianceVendorFilter := v\<rparr>"
| "handleTable (SetComplianceFilter v) s = s\<lparr>complianceFilter := v\<rparr>"
| "handleTable ResetCompliance s =
     s\<lparr>complianceVendorFilter := [], complianceFilter := ''all'', complianceCurrentPage := 1\<rparr>"
| "handleTable ClearAllCompliance s =
     s\<lparr>complianceVendorFilter := [], complianceFilter := ''all''\<rparr>"
| "handleTable (SetComplianceCurrentPage n) s = s\<lparr>complianceCurrentPage := n\<rparr>"
| "handleTable (SetSlaTypeFilter v) s = s\<lparr>slaTypeFilter := v\<rparr>"
| "handleTable (SetSlaBreachSeverity v) s = s\<lparr>slaBreachSeverity := v\<rparr>"
| "handleTable (SetSlaDelaySeverity v) s = s\<lparr>slaDelaySeverity := v\<rparr>"
| "handleTable ResetSla s =
     s\<lparr>slaTypeFilter := ''all'', slaBreachSeverity := ''all'', slaDelaySeverity := ''all'',
       slaCurrentPage := 1\<rparr>"
| "handleTable ClearAllSla s =
     s\<lparr>slaTypeFilter := ''all'', slaBreachSeverity := ''all'', slaDelaySeverity := ''all''\<rparr>"
| "handleTable (SetSlaCurrentPage n) s = s\<lparr>slaCurrentPage := n\<rparr>"

fun handle :: "action \<Rightarrow> reports_state \<Rightarrow> reports_state" where
  "handle (Table a) s = handleTable a s"
| "handle (SetTimeRange r) s = s\<lparr>timeRange := r\<rparr>"

datatype dataset = Aging | Compliance | Sla

text \<open>
  The filter slots of a table, as the dependency array of its reset effect lists them
  (lines 382, 386 and 390), its current page, and its page-navigation request.
\<close>

fun filterCriteria :: "dataset \<Rightarrow> reports_state \<Rightarrow> string list" where
  "filterCriteria Aging s = [agingVendorFilter s, agingStatusFilter s]"
| "filterCriteria Compliance s = [complianceVendorFilter s, complianceFilter s]"
| "filterCriteria Sla s = [slaTypeFilter s, slaBreachSeverity s, slaDelaySeverity s]"

fun currentPage :: "dataset \<Rightarrow> reports_state \<Rightarrow> int" where
  "currentPage Aging s = agingCurrentPage s"
| "currentPage Compliance s = complianceCurrentPage s"
| "currentPage Sla s = slaCurrentPage s"

fun setPage :: "dataset \<Rightarrow> int \<Rightarrow> table_action" where
  "setPage Aging n = SetAgingCurrentPage n"
| "setPage Compliance n = SetComplianceCurrentPage n"
| "setPage Sla n = SetSlaCurrentPage n"

subsection \<open>Effects\<close>

text \<open>
  \<^verbatim>\<open>
  useEffect(() => { setAgingCurrentPage(1) }, [agingVendorFilter, agingStatusFilter])
  useEffect(() => { setComplianceCurrentPage(1) }, [complianceVendorFilter, complianceFilter])
  useEffect(() => { setSlaCurrentPage(1) }, [slaTypeFilter, slaBreachSeverity, slaDelaySeverity])
  \<close>
  An effect runs after the render in which one of its dependencies differs from the
  render before. \<open>runEffects prev cur\<close> is the state after the effects of a render with the
  state \<open>cur\<close> that follows a render with the state \<open>prev\<close>: the three page resets, and the
  \<^verbatim>\<open>setLoading(true)\<close> of the trends effect, which depends on the time range. On mount
  every effect runs.
\<close>

definition runEffects :: "reports_state \<Rightarrow> reports_state \<Rightarrow> reports_state" where
  "runEffects prev cur =
     cur\<lparr> agingCurrentPage :=
            (if filterCriteria Aging cur \<noteq> filterCriteria Aging prev then 1
             else agingCurrentPage cur),
          complianceCurrentPage :=
            (if filterCriteria Compliance cur \<noteq> filterCriteria Compliance prev then 1
             else complianceCurrentPage cur),
          slaCurrentPage :=
            (if filterCriteria Sla cur \<noteq> filterCriteria Sla prev then 1
             else slaCurrentPage cur),
          loading := (if timeRange cur \<noteq> timeRange prev then True else loading cur) \<rparr>"

definition mountEffects :: "reports_state \<Rightarrow> reports_state" where
  "mountEffects s =
     s\<lparr>loading := True, agingCurrentPage := 1, complianceCurrentPage := 1, slaCurrentPage := 1\<rparr>"

text \<open>
  What follows an event: the handler updates the state, the component renders with the
  updated state, the effects of that render run, and when they changed the state the
  component renders once more. \<open>renders\<close> lists the states the component body is evaluated
  with, in order; \<open>dispatch\<close> is the state it settles in.
\<close>

definition renders :: "action \<Rightarrow> reports_state \<Rightarrow> reports_state list" where
  "renders a s =
     (let s1 = handle a s;
          s2 = runEffects s s1
      in if s2 = s1 then [s1] else [s1, s2])"

definition dispatch :: "action \<Rightarrow> reports_state \<Rightarrow> reports_state" where
  "dispatch a s = last (renders a s)"

subsection \<open>What a render computes\<close>

definition paginatedPaymentAging :: "reports_state \<Rightarrow> PaymentAgingRecord list" where
  "paginatedPaymentAging s =
     paginate (filteredPaymentAging (agingVendorFilter s) (agingStatusFilter s) (agingData s))
       (agingCurrentPage s) itemsPerPage"

definition paginatedCompliance :: "reports_state \<Rightarrow> ComplianceRecord list" where
  "paginatedCompliance s =
     paginate
       (filteredCompliance (complianceVendorFilter s) (complianceFilter s) (complianceData s))
       (complianceCurrentPage s) itemsPerPage"

definition paginatedSLABreaches :: "reports_state \<Rightarrow> SLABreachRecord list" where
  "paginatedSLABreaches s =
     paginate
       (filteredSLABreaches (slaTypeFilter s) (slaBreachSeverity s) (slaDelaySeverity s)
          (slaBreachData s))
       (slaCurrentPage s) itemsPerPage"

text \<open>
  The body of a table (for the aging table, lines 563 to 597): the loading card while
  \<^verbatim>\<open>loading\<close> is set, else a notice when the visible page is empty, else its rows.
\<close>

datatype 'r table_body = LoadingCard | NoRecords | Rows "'r list"

definition tableBody :: "bool \<Rightarrow> 'r list \<Rightarrow> 'r table_body" where
  "tableBody is_loading paginated =
     (if is_loading then LoadingCard
      else if length paginated = 0 then NoRecords
      else Rows paginated)"

definition agingTableBody :: "reports_state \<Rightarrow> PaymentAgingRecord table_body" where
  "agingTableBody s = tableBody (loading s) (paginatedPaymentAging s)"

definition complianceTableBody :: "reports_state \<Rightarrow> ComplianceRecord table_body" where
  "complianceTableBody s = tableBody (loading s) (paginatedCompliance s)"

definition slaTableBody :: "reports_state \<Rightarrow> SLABreachRecord table_body" where
  "slaTableBody s = tableBody (loading s) (paginatedSLABreaches s)"

text \<open>
  \<^verbatim>\<open>
  const summaryMetrics = useMemo(() => {
    const totalOutstanding = agingData.reduce((sum, item) => sum + item.outstandingAmount, 0)
    const avgCompliance = overallCompliance
    const totalBreaches = totalSlaBreaches
    return { totalOutstanding, avgCompliance, totalBreaches, paymentsReleased, pendingPayments }
  }, [agingData, overallCompliance, totalSlaBreaches, paymentsReleased, pendingPayments])
  \<close>
\<close>

record SummaryMetrics =
  totalOutstanding :: real
  avgCompliance :: real
  totalBreaches :: real
  m_paymentsReleased :: real
  m_pendingPayments :: real

definition summaryMetrics :: "reports_state \<Rightarrow> SummaryMetrics" where
  "summaryMetrics s =
     (let totalOutstanding = foldl (\<lambda>sum item. sum + outstandingAmount item) 0 (agingData s);
          avgCompliance = overallCompliance s;
          totalBreaches = totalSlaBreaches s
      in \<lparr> totalOutstanding = totalOutstanding,
           avgCompliance = avgCompliance,
           totalBreaches = totalBreaches,
           m_paymentsReleased = paymentsReleased s,
           m_pendingPayments = pendingPayments s \<rparr>)"

section \<open>Fetches\<close>

text \<open>
  Modelled from the spec: the response types of \<^verbatim>\<open>PaymentsApi\<close>
  (\<^verbatim>\<open>services/paymentsApi\<close>), whose declarations are not among the sources. Their fields
  are those the external interfaces of the specification list and the page reads:
  \<^verbatim>\<open>fetchAging\<close> gives \<^verbatim>\<open>vendorName\<close>, \<^verbatim>\<open>outstandingAmount\<close>, \<^verbatim>\<open>avgPendingDays\<close> and an
  optional \<^verbatim>\<open>oldestInvoiceDate\<close>; \<^verbatim>\<open>fetchCompliance\<close> gives \<^verbatim>\<open>vendors\<close> and
  \<^verbatim>\<open>overallComplianceRate\<close>; \<^verbatim>\<open>fetchSlaBreaches\<close> gives \<^verbatim>\<open>items\<close>, \<^verbatim>\<open>totalBreaches\<close> and
  \<^verbatim>\<open>avgDelayAcrossAll\<close>; \<^verbatim>\<open>fetchSummary\<close> gives \<^verbatim>\<open>released\<close> and \<^verbatim>\<open>pending\<close>. The page reads
  every response through \<^verbatim>\<open>resp?.data?.field\<close>, so the response, its \<^verbatim>\<open>data\<close> and each
  summary field may be missing (\<open>None\<close>). The vendor and item entries have the fields of
  the row the page builds from them.
\<close>

record AgingItem =
  vendorName :: string
  r_outstandingAmount :: real
  avgPendingDays :: real
  r_oldestInvoiceDate :: "string option"

record 'd ApiResponse =
  data :: "'d option"

record ComplianceData =
  vendors :: "ComplianceRecord list option"
  overallComplianceRate :: "real option"

record SlaData =
  items :: "SLABreachRecord list option"
  r_totalBreaches :: "real option"
  r_avgDelayAcrossAll :: "real option"

record SummaryData =
  released :: "real option"
  pending :: "real option"

text \<open>How the promise of a fetch settles.\<close>

datatype 'a promise_result = Fulfilled 'a | Rejected

text \<open>\<^verbatim>\<open>resp?.data\<close>\<close>

definition resp_data :: "'d ApiResponse option \<Rightarrow> 'd option" where
  "resp_data resp = (case resp of None \<Rightarrow> None | Some r \<Rightarrow> data r)"

text \<open>
  The row built from one aging item (lines 193 to 203). \<^verbatim>\<open>Date.now()\<close> is read for each
  item; the model takes one reading for the whole response.
\<close>

definition normalizeAging :: "(string \<Rightarrow> jsnum) \<Rightarrow> int \<Rightarrow> AgingItem \<Rightarrow> PaymentAgingRecord" where
  "normalizeAging getTime now r =
     (let oldestDays = computeDaysOld getTime now (r_oldestInvoiceDate r)
      in \<lparr> vendor = vendorName r,
           outstandingAmount = r_outstandingAmount r,
           avgDaysPending = avgPendingDays r,
           oldestInvoiceDate = (case r_oldestInvoiceDate r of None \<Rightarrow> [] | Some d \<Rightarrow> d),
           oldestInvoiceDays = oldestDays \<rparr>)"

text \<open>
  The settling of each fetch, as a state transition. \<open>mounted\<close> is the flag of the effect
  that started the fetch. \<^verbatim>\<open>.then\<close> runs on fulfilment only and returns at once when the
  flag is down; \<^verbatim>\<open>.finally\<close> runs in both cases and clears \<^verbatim>\<open>loading\<close> when the flag is
  up. The aging, compliance, SLA and trends chains have no \<^verbatim>\<open>.catch\<close>; the summary chain
  ends in \<^verbatim>\<open>.catch(() => {})\<close> and has no \<^verbatim>\<open>.finally\<close>.
\<close>

definition agingFetchSettled ::
    "(string \<Rightarrow> jsnum) \<Rightarrow> int \<Rightarrow> bool \<Rightarrow> AgingItem list ApiResponse option promise_result
       \<Rightarrow> reports_state \<Rightarrow> reports_state" where
  "agingFetchSettled getTime now mounted result s =
     (let s1 = (case result of
                  Fulfilled resp \<Rightarrow>
                    if \<not> mounted then s
                    else s\<lparr>agingData :=
                             map (normalizeAging getTime now) (or_empty (resp_data resp))\<rparr>
                | Rejected \<Rightarrow> s)
      in if mounted then s1\<lparr>loading := False\<rparr> else s1)"

definition complianceFetchSettled ::
    "bool \<Rightarrow> ComplianceData ApiResponse option promise_result
       \<Rightarrow> reports_state \<Rightarrow> reports_state" where
  "complianceFetchSettled mounted result s =
     (let s1 = (case result of
                  Fulfilled resp \<Rightarrow>
                    if \<not> mounted then s
                    else s\<lparr>complianceData :=
                             map (\<lambda>v. \<lparr> c_vendor = c_vendor v,
                                        totalInvoices = totalInvoices v,
                                        compliantPercentage = compliantPercentage v,
                                        issuesFound = issuesFound v \<rparr>)
                               (or_empty (Option.bind (resp_data resp) vendors)),
                           overallCompliance :=
                             or_zero (Option.bind (resp_data resp) overallComplianceRate)\<rparr>
                | Rejected \<Rightarrow> s)
      in if mounted then s1\<lparr>loading := False\<rparr> else s1)"

definition slaFetchSettled ::
    "bool \<Rightarrow> SlaData ApiResponse option promise_result \<Rightarrow> reports_state \<Rightarrow> reports_state" where
  "slaFetchSettled mounted result s =
     (let s1 = (case result of
                  Fulfilled resp \<Rightarrow>
                    if \<not> mounted then s
                    else s\<lparr>slaBreachData :=
                             map (\<lambda>item. \<lparr> slaType = slaType item,
                                           breachCount = breachCount item,
                                           avgDelayDays = avgDelayDays item \<rparr>)
                               (or_empty (Option.bind (resp_data resp) items)),
                           totalSlaBreaches :=
                             or_zero (Option.bind (resp_data resp) r_totalBreaches),
                           avgDelayAcrossAll :=
                             or_zero (Option.bind (resp_data resp) r_avgDelayAcrossAll)\<rparr>
                | Rejected \<Rightarrow> s)
      in if mounted then s1\<lparr>loading := False\<rparr> else s1)"

definition summaryFetchSettled ::
    "bool \<Rightarrow> SummaryData ApiResponse option promise_result \<Rightarrow> reports_state \<Rightarrow> reports_state" where
  "summaryFetchSettled mounted result s =
     (case result of
        Fulfilled resp \<Rightarrow>
          if \<not> mounted then s
          else s\<lparr>paymentsReleased := or_zero (Option.bind (resp_data resp) released),
                 pendingPayments := or_zero (Option.bind (resp_data resp) pending)\<rparr>
      | Rejected \<Rightarrow> s)"

definition trendsFetchSettled ::
    "bool \<Rightarrow> TrendPoint list ApiResponse option promise_result
       \<Rightarrow> reports_state \<Rightarrow> reports_state" where
  "trendsFetchSettled mounted result s =
     (let s1 = (case result of
                  Fulfilled resp \<Rightarrow>
                    if \<not> mounted then s
                    else s\<lparr>paymentChartData := or_empty (resp_data resp)\<rparr>
                | Rejected \<Rightarrow> s)
      in if mounted then s1\<lparr>loading := False\<rparr> else s1)"

section \<open>Sample data\<close>

text \<open>
  Eleven aging rows, two of them overdue, and a state in which the user has moved to the
  second page of the unfiltered aging table.
\<close>

definition agingRow :: "string \<Rightarrow> real \<Rightarrow> real \<Rightarrow> PaymentAgingRecord" where
  "agingRow v amount days =
     \<lparr> vendor = v, outstandingAmount = amount, avgDaysPending = days,
       oldestInvoiceDate = [], oldestInvoiceDays = Num 0 \<rparr>"

definition sampleAging :: "PaymentAgingRecord list" where
  "sampleAging =
     [agingRow ''V01'' 100 40, agingRow ''V02'' 100 10, agingRow ''V03'' 100 10,
      agingRow ''V04'' 100 10, agingRow ''V05'' 100 10, agingRow ''V06'' 100 10,
      agingRow ''V07'' 100 10, agingRow ''V08'' 100 10, agingRow ''V09'' 100 10,
      agingRow ''V10'' 100 10, agingRow ''V11'' 100 45]"

definition sampleState :: reports_state where
  "sampleState = initialState\<lparr>agingData := sampleAging, agingCurrentPage := 2\<rparr>"

section \<open>Theorems\<close>

subsection \<open>Derived days (C1)\<close>

text \<open>
  C1, as stated, fails: a non-empty date string that does not parse passes the guard
  \<^verbatim>\<open>!isoDate\<close>, its time value is NaN, and NaN goes through the subtraction,
  \<^verbatim>\<open>Math.floor\<close> and \<^verbatim>\<open>Math.max\<close>. The result is NaN, which is neither 0 nor a non-negative
  number.
\<close>

theorem computeDaysOld_unparseable_counterexample:
  "computeDaysOld sampleGetTime 1704974400000 (Some ''not a date'') = NaN
   \<and> \<not> nonneg_number (computeDaysOld sampleGetTime 1704974400000 (Some ''not a date''))
   \<and> oldestInvoiceDays
         (normalizeAging sampleGetTime 1704974400000
            \<lparr> vendorName = ''V01'', r_outstandingAmount = 100, avgPendingDays = 40,
              r_oldestInvoiceDate = Some ''not a date'' \<rparr>) = NaN"
  by (simp add: computeDaysOld_def normalizeAging_def sampleGetTime_def sampleDates_def)

text \<open>
  C1, amended: an absent date (\<^verbatim>\<open>null\<close> or the empty string) gives 0; a date string that
  parses to the time value \<open>t\<close> gives \<open>max 0 (floor ((now - t) / 86400000))\<close> days; in both
  cases the result is a non-negative number; and the derived field \<^verbatim>\<open>oldestInvoiceDays\<close> of
  a row is that result for the row's source date.
\<close>

theorem computeDaysOld_absent_or_parseable:
  "computeDaysOld getTime now None = Num 0
   \<and> computeDaysOld getTime now (Some []) = Num 0
   \<and> (s \<noteq> [] \<and> getTime s = Num t \<longrightarrow>
        computeDaysOld getTime now (Some s) = Num (max 0 ((now - t) div 86400000)))
   \<and> (isoDate = None \<or> isoDate = Some [] \<or> (isoDate = Some s \<and> getTime s = Num t) \<longrightarrow>
        nonneg_number (computeDaysOld getTime now isoDate))
   \<and> oldestInvoiceDays (normalizeAging getTime now r)
       = computeDaysOld getTime now (r_oldestInvoiceDate r)"
  by (auto simp add: computeDaysOld_def normalizeAging_def)

theorem computeDaysOld_absent_or_parseable_witness:
  "sampleGetTime ''2024-01-01T00:00:00.000Z'' = Num 1704067200000
   \<and> computeDaysOld sampleGetTime 1704974400000 (Some ''2024-01-01T00:00:00.000Z'') = Num 10
   \<and> nonneg_number (computeDaysOld sampleGetTime 1704974400000 (Some ''2024-01-01T00:00:00.000Z''))"
  using computeDaysOld_absent_or_parseable
          [where getTime = sampleGetTime and now = 1704974400000
             and s = "''2024-01-01T00:00:00.000Z''" and t = 1704067200000
             and isoDate = "Some ''2024-01-01T00:00:00.000Z''"]
  by (simp add: sampleGetTime_def sampleDates_def)

subsection \<open>Status buckets (C2)\<close>

text \<open>
  C2: the three bucket predicates of the status filter are the ranges overdue
  (\<open>avgDaysPending > 30\<close>), warning (\<open>15 < avgDaysPending\<close> and \<open>avgDaysPending \<le> 30\<close>)
  and good (\<open>avgDaysPending \<le> 15\<close>); a row satisfies the predicate of a bucket exactly
  when that bucket is the one its \<^verbatim>\<open>avgDaysPending\<close> falls in, so exactly one of the three
  holds of every aging row, whatever number its \<^verbatim>\<open>avgDaysPending\<close> is; a row with
  \<open>avgDaysPending = 30\<close> is in warning and not in overdue.
\<close>

theorem agingStatus_buckets_partition:
  "(agingStatusPred ''overdue'' item \<longleftrightarrow> avgDaysPending item > 30)
   \<and> (agingStatusPred ''warning'' item
        \<longleftrightarrow> 15 < avgDaysPending item \<and> avgDaysPending item \<le> 30)
   \<and> (agingStatusPred ''good'' item \<longleftrightarrow> avgDaysPending item \<le> 15)
   \<and> (agingStatusPred ''overdue'' item
        \<longleftrightarrow> status_bucket (avgDaysPending item) = ''overdue'')
   \<and> (agingStatusPred ''warning'' item
        \<longleftrightarrow> status_bucket (avgDaysPending item) = ''warning'')
   \<and> (agingStatusPred ''good'' item \<longleftrightarrow> status_bucket (avgDaysPending item) = ''good'')
   \<and> length (filter (\<lambda>b. agingStatusPred b item) [''overdue'', ''warning'', ''good'']) = 1
   \<and> agingStatusPred ''warning'' (item\<lparr>avgDaysPending := 30\<rparr>)
   \<and> \<not> agingStatusPred ''overdue'' (item\<lparr>avgDaysPending := 30\<rparr>)
   \<and> \<not> agingStatusPred ''good'' (item\<lparr>avgDaysPending := 30\<rparr>)"
proof -
  have overdue: "agingStatusPred ''overdue'' r \<longleftrightarrow> avgDaysPending r > 30" for r
    by (simp add: agingStatusPred_def)
  have warning: "agingStatusPred ''warning'' r
                   \<longleftrightarrow> 15 < avgDaysPending r \<and> avgDaysPending r \<le> 30" for r
    by (simp add: agingStatusPred_def)
  have good: "agingStatusPred ''good'' r \<longleftrightarrow> avgDaysPending r \<le> 15" for r
    by (simp add: agingStatusPred_def)
  have b1: "agingStatusPred ''overdue'' item
              \<longleftrightarrow> status_bucket (avgDaysPending item) = ''overdue''"
    unfolding overdue by (simp add: status_bucket_def)
  have b2: "agingStatusPred ''warning'' item
              \<longleftrightarrow> status_bucket (avgDaysPending item) = ''warning''"
    unfolding warning by (auto simp add: status_bucket_def)
  have b3: "agingStatusPred ''good'' item
              \<longleftrightarrow> status_bucket (avgDaysPending item) = ''good''"
    unfolding good by (auto simp add: status_bucket_def)
  have one: "length (filter (\<lambda>b. agingStatusPred b item)
                       [''overdue'', ''warning'', ''good'']) = 1"
    by (simp add: overdue warning good)
  have at30: "agingStatusPred ''warning'' (item\<lparr>avgDaysPending := 30\<rparr>)"
    "\<not> agingStatusPred ''overdue'' (item\<lparr>avgDaysPending := 30\<rparr>)"
    "\<not> agingStatusPred ''good'' (item\<lparr>avgDaysPending := 30\<rparr>)"
    by (simp_all add: overdue warning good)
  from overdue [of item] warning [of item] good [of item] b1 b2 b3 one at30
  show ?thesis by blast
qed

subsection \<open>Filter engine (C4)\<close>

lemma filteredPaymentAging_filter:
  "filteredPaymentAging vf sf rows = filter (aging_row_satisfies vf sf) rows"
  by (auto simp add: filteredPaymentAging_def aging_row_satisfies_def text_slot_def Let_def
        intro: filter_cong)

lemma filteredCompliance_filter:
  "filteredCompliance vf lf rows = filter (compliance_row_satisfies vf lf) rows"
  by (auto simp add: filteredCompliance_def compliance_row_satisfies_def text_slot_def Let_def
        intro: filter_cong)

lemma filteredSLABreaches_filter:
  "filteredSLABreaches tf bf df rows = filter (sla_row_satisfies tf bf df) rows"
  by (auto simp add: filteredSLABreaches_def sla_row_satisfies_def Let_def intro: filter_cong)

text \<open>
  C4: the filtered output of a table is the sub-sequence of its rows, in their original
  order, that satisfy every slot, a slot at its neutral value being satisfied by every
  row; with all slots neutral the output is the input. Shown for the payment aging, the
  compliance and the SLA breach table.
\<close>

theorem filter_engine_subsequence:
  "filteredPaymentAging vf sf agingRows = filter (aging_row_satisfies vf sf) agingRows
   \<and> filteredCompliance cf lf complianceRows
       = filter (compliance_row_satisfies cf lf) complianceRows
   \<and> filteredSLABreaches tf bf df slaRows = filter (sla_row_satisfies tf bf df) slaRows
   \<and> subseq (filteredPaymentAging vf sf agingRows) agingRows
   \<and> subseq (filteredCompliance cf lf complianceRows) complianceRows
   \<and> subseq (filteredSLABreaches tf bf df slaRows) slaRows
   \<and> filteredPaymentAging [] ''all'' agingRows = agingRows
   \<and> filteredCompliance [] ''all'' complianceRows = complianceRows
   \<and> filteredSLABreaches ''all'' ''all'' ''all'' slaRows = slaRows"
proof -
  have "filteredPaymentAging [] ''all'' agingRows = agingRows"
    by (simp add: filteredPaymentAging_def)
  moreover have "filteredCompliance [] ''all'' complianceRows = complianceRows"
    by (simp add: filteredCompliance_def)
  moreover have "filteredSLABreaches ''all'' ''all'' ''all'' slaRows = slaRows"
    by (simp add: filteredSLABreaches_def)
  ultimately show ?thesis
    by (simp add: filteredPaymentAging_filter filteredCompliance_filter
          filteredSLABreaches_filter)
qed

subsection \<open>Pagination window (C5)\<close>

lemma totalPages_neg_div: "totalPages n p = - (- int n div p)"
  by (simp add: totalPages_def ceiling_divide_eq_div [of "int n" p, where ?'a = real, simplified])

lemma totalPages_least:
  assumes "1 \<le> p"
  shows "int n \<le> totalPages n p * p \<and> (totalPages n p - 1) * p < int n"
proof -
  let ?q = "(- int n) div p" and ?r = "(- int n) mod p"
  have e: "?q * p + ?r = - int n" by simp
  from assms have r: "0 \<le> ?r" "?r < p" by simp_all
  have t: "totalPages n p * p = - (?q * p)" "(totalPages n p - 1) * p = - (?q * p) - p"
    by (simp_all add: totalPages_neg_div algebra_simps)
  from e r show ?thesis unfolding t by linarith
qed

lemma take_drop_nth:
  "a + m \<le> length xs \<Longrightarrow> take m (drop a xs) = map ((!) xs) [a ..< a + m]"
  by (rule nth_equalityI) simp_all

lemma slice_in_range:
  assumes "0 \<le> a" and "a \<le> b" and "b \<le> int (length xs)"
  shows "slice xs a b = map ((!) xs) [nat a ..< nat b]"
proof -
  from assms have "slice xs a b = take (nat (b - a)) (drop (nat a) xs)"
    by (simp add: slice_def min_def)
  also from assms have "\<dots> = map ((!) xs) [nat a ..< nat a + nat (b - a)]"
    by (intro take_drop_nth) linarith
  also from assms have "nat a + nat (b - a) = nat b" by linarith
  finally show ?thesis .
qed

lemma slice_empty:
  assumes "0 \<le> b" and "b \<le> a"
  shows "slice xs a b = []"
  using assms by (simp add: slice_def min_def)

lemma paginate_window:
  assumes "1 \<le> k" and "1 \<le> p"
  shows "paginate xs k p =
         map ((!) xs) [nat ((k - 1) * p) ..< nat (min ((k - 1) * p + p) (int (length xs)))]"
proof -
  let ?a = "(k - 1) * p" and ?n = "int (length xs)"
  let ?b = "min (?a + p) ?n"
  from assms have a0: "0 \<le> ?a" by simp
  have bn: "?b \<le> ?n" and b0: "0 \<le> ?b" using a0 assms by simp_all
  show ?thesis
  proof (cases "?a \<le> ?b")
    case True
    with a0 bn show ?thesis
      by (simp add: paginate_def startIndex_def endIndex_def slice_in_range)
  next
    case False
    then have ba: "?b \<le> ?a" by linarith
    with b0 have "slice xs ?a ?b = []" by (rule slice_empty)
    moreover from ba have "nat ?b \<le> nat ?a" by (rule nat_mono)
    then have "[nat ?a ..< nat ?b] = []" by simp
    ultimately show ?thesis
      by (simp add: paginate_def startIndex_def endIndex_def)
  qed
qed

text \<open>
  C5: for a filtered sequence \<open>xs\<close> of length \<open>n\<close>, a page size \<open>p \<ge> 1\<close> and a requested
  page \<open>k \<ge> 1\<close>, the start index is \<open>(k - 1) * p\<close>, the end index is
  \<open>min (start + p) n\<close>, the visible slice holds exactly the rows at the indices from start
  (included) to end (excluded), the number of pages is the ceiling of \<open>n / p\<close> (the least
  \<open>t\<close> with \<open>n \<le> t * p\<close>), which is 0 for \<open>n = 0\<close>, and a start at or beyond \<open>n\<close> gives
  the empty slice.
\<close>

theorem pagination_window:
  assumes "1 \<le> k" and "1 \<le> p"
  shows "startIndex k p = (k - 1) * p
         \<and> endIndex (length xs) k p = min (startIndex k p + p) (int (length xs))
         \<and> paginate xs k p
             = map ((!) xs) [nat (startIndex k p) ..< nat (endIndex (length xs) k p)]
         \<and> totalPages (length xs) p = \<lceil>real (length xs) / real_of_int p\<rceil>
         \<and> int (length xs) \<le> totalPages (length xs) p * p
         \<and> (totalPages (length xs) p - 1) * p < int (length xs)
         \<and> totalPages 0 p = 0
         \<and> (int (length xs) \<le> startIndex k p \<longrightarrow> paginate xs k p = [])"
proof -
  have s: "startIndex k p = (k - 1) * p"
    by (simp add: startIndex_def)
  have f: "endIndex (length xs) k p = min (startIndex k p + p) (int (length xs))"
    by (simp add: endIndex_def)
  have w: "paginate xs k p
             = map ((!) xs) [nat (startIndex k p) ..< nat (endIndex (length xs) k p)]"
    using paginate_window [OF assms, of xs] by (simp add: startIndex_def endIndex_def)
  have c: "totalPages (length xs) p = \<lceil>real (length xs) / real_of_int p\<rceil>"
    by (simp add: totalPages_def)
  have z: "totalPages 0 p = 0"
    by (simp add: totalPages_def)
  have e: "paginate xs k p = []" if "int (length xs) \<le> startIndex k p"
  proof -
    from that assms have "endIndex (length xs) k p \<le> startIndex k p"
      by (simp add: endIndex_def)
    then have "nat (endIndex (length xs) k p) \<le> nat (startIndex k p)" by (rule nat_mono)
    with w show ?thesis by simp
  qed
  from totalPages_least [OF assms(2), of "length xs"]
  have l: "int (length xs) \<le> totalPages (length xs) p * p"
    and u: "(totalPages (length xs) p - 1) * p < int (length xs)"
    by blast+
  from s f w c l u z e show ?thesis by blast
qed

theorem pagination_window_witness:
  "paginate [1, 2, 3, 4, 5 :: nat] 2 2 = [3, 4]
   \<and> paginate [1, 2, 3, 4, 5 :: nat] 3 2 = [5]
   \<and> paginate [1, 2, 3, 4, 5 :: nat] 4 2 = []
   \<and> totalPages (length [1, 2, 3, 4, 5 :: nat]) 2 = 3"
  using pagination_window [of 2 2 "[1, 2, 3, 4, 5 :: nat]"]
        pagination_window [of 3 2 "[1, 2, 3, 4, 5 :: nat]"]
        pagination_window [of 4 2 "[1, 2, 3, 4, 5 :: nat]"]
  by (simp add: startIndex_def endIndex_def totalPages_def)

subsection \<open>Page reset on filter change (C3)\<close>

lemma dispatch_eq: "dispatch a s = runEffects s (handle a s)"
  by (simp add: dispatch_def renders_def Let_def)

lemma filterCriteria_runEffects: "filterCriteria d (runEffects p s) = filterCriteria d s"
  by (cases d) (simp_all add: runEffects_def)

lemma currentPage_runEffects:
  "filterCriteria d s \<noteq> filterCriteria d p \<Longrightarrow> currentPage d (runEffects p s) = 1"
  by (cases d) (simp_all add: runEffects_def)

lemma filterCriteria_setPage:
  "filterCriteria d (handleTable (setPage d' n) s) = filterCriteria d s"
  by (cases d; cases d') simp_all

text \<open>
  C3, as stated, fails: the page is not 1 before the next windowing. With eleven aging rows
  and the second page shown, choosing the status \<^verbatim>\<open>overdue\<close> makes the component render
  with the new filter and the old page 2: two rows match, the window starts at index 10, and the
  table shows no record. Only the effect of that render sets the page to 1, and a second
  render shows the two rows.
\<close>

theorem page_reset_counterexample:
  "map agingCurrentPage (renders (Table (SetAgingStatusFilter ''overdue'')) sampleState) = [2, 1]
   \<and> map agingTableBody (renders (Table (SetAgingStatusFilter ''overdue'')) sampleState)
       = [NoRecords, Rows [agingRow ''V01'' 100 40, agingRow ''V11'' 100 45]]"
  by (simp add: renders_def runEffects_def sampleState_def initialState_def sampleAging_def
        agingTableBody_def tableBody_def paginatedPaymentAging_def paginate_def slice_def
        startIndex_def endIndex_def itemsPerPage_def filteredPaymentAging_def
        agingStatusPred_def agingRow_def Let_def)

text \<open>
  C3, amended: when an event changes a filter slot of a dataset, that dataset's current
  page is 1 once the effects of the render that follows the change have run, so the window
  of the state the component settles in starts at index 0; the effects leave the filter
  criteria as the handler set them; and a page-navigation request of any dataset leaves
  the filter criteria of every dataset unchanged.
\<close>

theorem page_reset_after_effects:
  "(filterCriteria d (handle a s) \<noteq> filterCriteria d s \<longrightarrow>
      currentPage d (dispatch a s) = 1
      \<and> startIndex (currentPage d (dispatch a s)) itemsPerPage = 0)
   \<and> filterCriteria d (dispatch a s) = filterCriteria d (handle a s)
   \<and> filterCriteria d (dispatch (Table (setPage d' n)) s) = filterCriteria d s"
  by (simp add: dispatch_eq filterCriteria_runEffects currentPage_runEffects
        filterCriteria_setPage startIndex_def)

theorem page_reset_after_effects_witness:
  "filterCriteria Aging (handle (Table (SetAgingStatusFilter ''overdue'')) sampleState)
     \<noteq> filterCriteria Aging sampleState
   \<and> currentPage Aging (dispatch (Table (SetAgingStatusFilter ''overdue'')) sampleState) = 1"
  using page_reset_after_effects
          [of Aging "Table (SetAgingStatusFilter ''overdue'')" sampleState]
  by (simp add: sampleState_def initialState_def)

subsection \<open>Delimited text (C6, C7)\<close>

lemma String_includes_single: "String_includes s [c] \<longleftrightarrow> c \<in> set s"
  by (induction s) auto

lemma escapeCSV_quoted_text: "escapeCSV str val = quoted_text (field_text str val)"
  by (cases val)
     (simp_all add: escapeCSV_def quoted_text_def field_text_def plain_text_def
        String_includes_single)

lemma feed_replace_quotes:
  "foldl csv_step (recs, flds, cur, Quoted) (replace_quotes s) = (recs, flds, rev s @ cur, Quoted)"
  by (induction s arbitrary: cur) (simp_all add: replace_quotes_def)

lemma feed_plain:
  "plain_text s \<Longrightarrow> m = FieldStart \<or> m = Unquoted \<Longrightarrow>
   foldl csv_step (recs, flds, cur, m) s
     = (recs, flds, rev s @ cur, if s = [] then m else Unquoted)"
  by (induction s arbitrary: cur m) (auto simp add: plain_text_def)

lemma feed_field:
  "\<exists>m. m \<noteq> Quoted \<and>
        foldl csv_step (recs, flds, [], FieldStart) (quoted_text s) = (recs, flds, rev s, m)"
proof (cases "plain_text s")
  case True
  then show ?thesis
    using feed_plain [of s FieldStart recs flds "[]"] by (auto simp add: quoted_text_def)
next
  case False
  then show ?thesis
    by (simp add: quoted_text_def feed_replace_quotes)
qed

lemma Array_join_Cons:
  "xs \<noteq> [] \<Longrightarrow> Array_join sep (x # xs) = x @ sep @ Array_join sep xs"
  by (cases xs) simp_all

lemma feed_line:
  "vals \<noteq> [] \<Longrightarrow>
   \<exists>m. m \<noteq> Quoted \<and>
       foldl csv_step (recs, flds, [], FieldStart) (Array_join '','' (map quoted_text vals))
         = (recs, rev (butlast vals) @ flds, rev (last vals), m)"
proof (induction vals arbitrary: flds rule: list_nonempty_induct)
  case (single x)
  show ?case using feed_field [of recs flds x] by simp
next
  case (cons x xs)
  from feed_field [of recs flds x] obtain m where
    m: "m \<noteq> Quoted"
    and f: "foldl csv_step (recs, flds, [], FieldStart) (quoted_text x) = (recs, flds, rev x, m)"
    by blast
  from cons.IH [of "x # flds"] obtain m' where
    m': "m' \<noteq> Quoted"
    and g: "foldl csv_step (recs, x # flds, [], FieldStart)
              (Array_join '','' (map quoted_text xs))
            = (recs, rev (butlast xs) @ x # flds, rev (last xs), m')"
    by auto
  from cons.hyps have "foldl csv_step (recs, flds, [], FieldStart)
          (Array_join '','' (map quoted_text (x # xs)))
        = foldl csv_step (csv_step (recs, flds, rev x, m) (CHR '',''))
            (Array_join '','' (map quoted_text xs))"
    using f by (simp add: Array_join_Cons)
  also have "csv_step (recs, flds, rev x, m) (CHR '','') = (recs, x # flds, [], FieldStart)"
    using m by simp
  also note g
  finally show ?case using m' cons.hyps by auto
qed

lemma feed_lines:
  "ls \<noteq> [] \<Longrightarrow> \<forall>l \<in> set ls. l \<noteq> [] \<Longrightarrow>
   \<exists>m. m \<noteq> Quoted \<and>
       foldl csv_step (recs, [], [], FieldStart) (Array_join [CHR 0x0A] (map csv_line ls))
         = (rev (butlast ls) @ recs, rev (butlast (last ls)), rev (last (last ls)), m)"
proof (induction ls arbitrary: recs rule: list_nonempty_induct)
  case (single x)
  then show ?case using feed_line [of x recs "[]"] by (simp add: csv_line_def)
next
  case (cons x xs)
  from cons.prems have x: "x \<noteq> []" by simp
  from feed_line [OF x, of recs "[]"] obtain m where
    m: "m \<noteq> Quoted"
    and f: "foldl csv_step (recs, [], [], FieldStart) (csv_line x)
            = (recs, rev (butlast x), rev (last x), m)"
    by (auto simp add: csv_line_def)
  from x have xx: "rev (rev (rev (last x)) # rev (butlast x)) = x"
    by simp
  from cons.IH [of "x # recs"] cons.prems obtain m' where
    m': "m' \<noteq> Quoted"
    and g: "foldl csv_step (x # recs, [], [], FieldStart)
              (Array_join [CHR 0x0A] (map csv_line xs))
            = (rev (butlast xs) @ x # recs, rev (butlast (last xs)),
               rev (last (last xs)), m')"
    by auto
  from cons.hyps have "foldl csv_step (recs, [], [], FieldStart)
          (Array_join [CHR 0x0A] (map csv_line (x # xs)))
        = foldl csv_step (csv_step (recs, rev (butlast x), rev (last x), m) (CHR 0x0A))
            (Array_join [CHR 0x0A] (map csv_line xs))"
    using f by (simp add: Array_join_Cons)
  also have "csv_step (recs, rev (butlast x), rev (last x), m) (CHR 0x0A)
               = (x # recs, [], [], FieldStart)"
    using m xx by simp
  also note g
  finally show ?case using m' cons.hyps by auto
qed

lemma parseCSV_lines:
  assumes "ls \<noteq> []" and "\<forall>l \<in> set ls. l \<noteq> []"
  shows "parseCSV (Array_join [CHR 0x0A] (map csv_line ls)) = ls"
proof -
  from feed_lines [OF assms, of "[]"] obtain m where
    "foldl csv_step ([], [], [], FieldStart) (Array_join [CHR 0x0A] (map csv_line ls))
       = (rev (butlast ls), rev (butlast (last ls)), rev (last (last ls)), m)"
    by auto
  moreover from assms have "last ls \<noteq> []" by simp
  then have "butlast (last ls) @ [last (last ls)] = last ls" by simp
  moreover from assms have "butlast ls @ [last ls] = ls" by simp
  ultimately show ?thesis by (simp add: parseCSV_def)
qed

lemma push_lines:
  "foldl (\<lambda>lines row. lines @ [f row]) init rows = init @ map f rows"
  by (induction rows arbitrary: init) simp_all

lemma plain_line: "list_all plain_text hs \<Longrightarrow> Array_join '','' hs = csv_line hs"
proof -
  assume "list_all plain_text hs"
  then have "map quoted_text hs = hs"
    by (induction hs) (simp_all add: quoted_text_def)
  then show ?thesis by (simp add: csv_line_def)
qed

lemma toCSV_lines:
  assumes "rows \<noteq> []" and "list_all plain_text (toCSV_headers rows ho)"
  shows "toCSV str rows ho
         = Array_join [CHR 0x0A]
             (map csv_line
                (toCSV_headers rows ho
                 # map (\<lambda>row. map (\<lambda>h. field_text str (get_prop row h))
                                 (toCSV_headers rows ho)) rows))"
  using assms
  by (simp add: toCSV_def push_lines plain_line csv_line_def escapeCSV_quoted_text comp_def
        Let_def)

lemma parse_toCSV:
  assumes "toCSV_headers rows ho \<noteq> []" and "list_all plain_text (toCSV_headers rows ho)"
  shows "tl (parseCSV (toCSV str rows ho))
           = map (\<lambda>row. map (\<lambda>h. field_text str (get_prop row h)) (toCSV_headers rows ho)) rows"
    and "rows \<noteq> [] \<Longrightarrow> hd (parseCSV (toCSV str rows ho)) = toCSV_headers rows ho"
proof -
  let ?ls = "toCSV_headers rows ho
               # map (\<lambda>row. map (\<lambda>h. field_text str (get_prop row h))
                               (toCSV_headers rows ho)) rows"
  have p: "parseCSV (toCSV str rows ho) = ?ls" if "rows \<noteq> []"
    unfolding toCSV_lines [OF that assms(2)]
    by (rule parseCSV_lines) (use assms(1) in auto)
  show "tl (parseCSV (toCSV str rows ho))
           = map (\<lambda>row. map (\<lambda>h. field_text str (get_prop row h)) (toCSV_headers rows ho)) rows"
  proof (cases "rows = []")
    case True
    then show ?thesis by (simp add: toCSV_def parseCSV_def)
  next
    case False
    then show ?thesis by (simp add: p)
  qed
  show "hd (parseCSV (toCSV str rows ho)) = toCSV_headers rows ho" if "rows \<noteq> []"
    using that by (simp add: p)
qed

lemma parse_agingExportCSV:
  "tl (parseCSV (agingExportCSV str filtered))
     = map (\<lambda>r. [str (Text (vendor r)), str (Number (outstandingAmount r)),
                  str (Number (avgDaysPending r)), str (Text (oldestInvoiceDate r)),
                  str (Days (oldestInvoiceDays r))]) filtered"
  unfolding agingExportCSV_def
  by (subst parse_toCSV(1))
     (simp_all add: toCSV_headers_def plain_text_def get_prop_def agingExportRow_def
        field_text_def comp_def)

lemma parse_complianceExportCSV:
  "tl (parseCSV (complianceExportCSV str filtered))
     = map (\<lambda>r. [str (Text (c_vendor r)), str (Number (totalInvoices r)),
                  str (Number (compliantPercentage r)), str (Number (issuesFound r))]) filtered"
  unfolding complianceExportCSV_def
  by (subst parse_toCSV(1))
     (simp_all add: toCSV_headers_def plain_text_def get_prop_def complianceExportRow_def
        field_text_def comp_def)

lemma parse_slaExportCSV:
  "tl (parseCSV (slaExportCSV str filtered))
     = map (\<lambda>r. [str (Text (slaType r)), str (Number (breachCount r)),
                  str (Number (avgDelayDays r))]) filtered"
  unfolding slaExportCSV_def
  by (subst parse_toCSV(1))
     (simp_all add: toCSV_headers_def plain_text_def get_prop_def slaExportRow_def
        field_text_def comp_def)

text \<open>
  C6: a field value is written as its text, empty for \<^verbatim>\<open>null\<close> and \<^verbatim>\<open>undefined\<close>, wrapped
  in quotes with its quotes doubled when it contains a comma, a quote or a newline; and
  reading the export back with the same rules gives, after the header record, one record
  for each row that holds exactly the texts of its field values. This holds for every row
  set under every header list that is not empty and whose names are free of the three
  special characters (header names are written unescaped), so for every row set of the
  three report tables, whose header lists are fixed.
\<close>

theorem toCSV_roundtrip:
  "escapeCSV str val = quoted_text (field_text str val)
   \<and> field_text str Undefined = [] \<and> field_text str Null = []
   \<and> (toCSV_headers rows ho \<noteq> [] \<and> list_all plain_text (toCSV_headers rows ho) \<longrightarrow>
        tl (parseCSV (toCSV str rows ho))
          = map (\<lambda>row. map (\<lambda>h. field_text str (get_prop row h)) (toCSV_headers rows ho)) rows
        \<and> (rows \<noteq> [] \<longrightarrow> hd (parseCSV (toCSV str rows ho)) = toCSV_headers rows ho))
   \<and> tl (parseCSV (agingExportCSV cstr aging))
       = map (\<lambda>r. [cstr (Text (vendor r)), cstr (Number (outstandingAmount r)),
                    cstr (Number (avgDaysPending r)), cstr (Text (oldestInvoiceDate r)),
                    cstr (Days (oldestInvoiceDays r))]) aging
   \<and> tl (parseCSV (complianceExportCSV cstr compliance))
       = map (\<lambda>r. [cstr (Text (c_vendor r)), cstr (Number (totalInvoices r)),
                    cstr (Number (compliantPercentage r)), cstr (Number (issuesFound r))])
           compliance
   \<and> tl (parseCSV (slaExportCSV cstr sla))
       = map (\<lambda>r. [cstr (Text (slaType r)), cstr (Number (breachCount r)),
                    cstr (Number (avgDelayDays r))]) sla"
  using parse_toCSV [of rows ho str]
  by (simp add: escapeCSV_quoted_text field_text_def parse_agingExportCSV
        parse_complianceExportCSV parse_slaExportCSV)

theorem toCSV_roundtrip_witness:
  "toCSV_headers sampleRows (Some [''vendor'', ''note'']) \<noteq> []
   \<and> list_all plain_text (toCSV_headers sampleRows (Some [''vendor'', ''note'']))
   \<and> parseCSV (toCSV (\<lambda>s. s) sampleRows (Some [''vendor'', ''note'']))
       = [[''vendor'', ''note''],
          [''Acme, Inc.'', ''say '' @ [CHR 0x22] @ ''hi'' @ [CHR 0x22]],
          [''two'' @ [CHR 0x0A] @ ''lines'', []],
          [''plain'', []]]"
proof -
  have h: "toCSV_headers sampleRows (Some [''vendor'', ''note'']) = [''vendor'', ''note'']"
    by (simp add: toCSV_headers_def)
  have r: "sampleRows \<noteq> []"
    by (simp add: sampleRows_def)
  have p: "list_all plain_text [''vendor'', ''note'']"
    by (simp add: plain_text_def)
  from toCSV_roundtrip [of "\<lambda>s. s" Undefined sampleRows "Some [''vendor'', ''note'']"] h r p
  have "tl (parseCSV (toCSV (\<lambda>s. s) sampleRows (Some [''vendor'', ''note''])))
          = map (\<lambda>row. map (\<lambda>h. field_text (\<lambda>s. s) (get_prop row h)) [''vendor'', ''note''])
              sampleRows"
    and "hd (parseCSV (toCSV (\<lambda>s. s) sampleRows (Some [''vendor'', ''note''])))
          = [''vendor'', ''note'']"
    by simp_all
  moreover have "parseCSV (toCSV (\<lambda>s. s) sampleRows (Some [''vendor'', ''note''])) \<noteq> []"
    by (simp add: parseCSV_def split: prod.split)
  ultimately have "parseCSV (toCSV (\<lambda>s. s) sampleRows (Some [''vendor'', ''note'']))
          = [''vendor'', ''note'']
            # map (\<lambda>row. map (\<lambda>h. field_text (\<lambda>s. s) (get_prop row h)) [''vendor'', ''note''])
                sampleRows"
    by (metis list.collapse)
  with h p show ?thesis
    by (simp add: sampleRows_def field_text_def get_prop_def)
qed

lemma toCSV_nonempty_rows:
  assumes "rows \<noteq> []"
  shows "toCSV str rows ho
         = Array_join [CHR 0x0A]
             (Array_join '','' (toCSV_headers rows ho)
              # map (\<lambda>row. Array_join '','' (map (\<lambda>h. escapeCSV str (get_prop row h))
                                                 (toCSV_headers rows ho))) rows)"
    and "toCSV str rows ho \<noteq> []"
proof -
  let ?f = "\<lambda>row. Array_join '','' (map (\<lambda>h. escapeCSV str (get_prop row h))
                                        (toCSV_headers rows ho))"
  show e: "toCSV str rows ho
           = Array_join [CHR 0x0A] (Array_join '','' (toCSV_headers rows ho) # map ?f rows)"
    using assms by (simp add: toCSV_def push_lines Let_def)
  from assms have "map ?f rows \<noteq> []" by simp
  then show "toCSV str rows ho \<noteq> []"
    unfolding e by (simp add: Array_join_Cons)
qed

lemma toCSV_empty_iff: "toCSV str rows ho = [] \<longleftrightarrow> rows = []"
  using toCSV_nonempty_rows(2) [of rows str ho] by (auto simp add: toCSV_def)

text \<open>
  C7: the export is the empty string exactly when the row sequence is empty; for a
  non-empty row sequence it is the header line followed by one record line per row, in the
  order of the rows, joined by newlines. The same equivalence holds for the export of each
  of the three tables and its filtered rows.
\<close>

theorem toCSV_empty_iff_header_first:
  "(toCSV str rows ho = [] \<longleftrightarrow> rows = [])
   \<and> (rows \<noteq> [] \<longrightarrow>
        toCSV str rows ho
          = Array_join [CHR 0x0A]
              (Array_join '','' (toCSV_headers rows ho)
               # map (\<lambda>row. Array_join '','' (map (\<lambda>h. escapeCSV str (get_prop row h))
                                                  (toCSV_headers rows ho))) rows))
   \<and> (agingExportCSV cstr aging = [] \<longleftrightarrow> aging = [])
   \<and> (complianceExportCSV cstr compliance = [] \<longleftrightarrow> compliance = [])
   \<and> (slaExportCSV cstr sla = [] \<longleftrightarrow> sla = [])"
  using toCSV_nonempty_rows(1) [of rows str ho]
  by (simp add: toCSV_empty_iff agingExportCSV_def complianceExportCSV_def slaExportCSV_def)

theorem toCSV_empty_iff_header_first_witness:
  "sampleRows \<noteq> []
   \<and> toCSV (\<lambda>s. s) sampleRows (Some [''vendor'', ''note''])
       = Array_join [CHR 0x0A]
           [''vendor,note'',
            [CHR 0x22] @ ''Acme, Inc.'' @ [CHR 0x22] @ '',''
              @ [CHR 0x22] @ ''say '' @ [CHR 0x22, CHR 0x22] @ ''hi'' @ [CHR 0x22, CHR 0x22, CHR 0x22],
            [CHR 0x22] @ ''two'' @ [CHR 0x0A] @ ''lines'' @ [CHR 0x22] @ '','',
            ''plain,'']
   \<and> toCSV (\<lambda>s. s) ([] :: string row list) (Some [''vendor'', ''note'']) = []"
  using toCSV_empty_iff_header_first
          [of "\<lambda>s. s" sampleRows "Some [''vendor'', ''note'']"]
        toCSV_empty_iff_header_first
          [of "\<lambda>s. s" "[] :: string row list" "Some [''vendor'', ''note'']"]
  by (simp add: sampleRows_def toCSV_headers_def escapeCSV_def get_prop_def replace_quotes_def)

subsection \<open>Summary metrics (C8)\<close>

lemma foldl_sum:
  "foldl (\<lambda>sum item. sum + f item) (a :: real) xs = a + sum_list (map f xs)"
  by (induction xs arbitrary: a) simp_all

lemma summary_handleTable: "summaryMetrics (handleTable a s) = summaryMetrics s"
  by (cases a) (simp_all add: summaryMetrics_def)

lemma summary_runEffects: "summaryMetrics (runEffects p s) = summaryMetrics s"
  by (simp add: summaryMetrics_def runEffects_def)

text \<open>
  C8: the summary metrics do not depend on filters or pagination. The total outstanding is
  the sum of \<^verbatim>\<open>outstandingAmount\<close> over all aging rows, whatever the filters; the compliance
  rate and the breach total are the values stored from the summary fields of the
  compliance and SLA responses; and every filter or page event of any table leaves the
  summary metrics unchanged, in each render that follows it and in the state the component
  settles in.
\<close>

theorem summary_frame:
  "summaryMetrics (dispatch (Table a) s) = summaryMetrics s
   \<and> list_all (\<lambda>r. summaryMetrics r = summaryMetrics s) (renders (Table a) s)
   \<and> totalOutstanding (summaryMetrics s) = sum_list (map outstandingAmount (agingData s))
   \<and> avgCompliance (summaryMetrics s) = overallCompliance s
   \<and> totalBreaches (summaryMetrics s) = totalSlaBreaches s
   \<and> avgCompliance (summaryMetrics (complianceFetchSettled True (Fulfilled r2) s))
       = or_zero (Option.bind (resp_data r2) overallComplianceRate)
   \<and> totalBreaches (summaryMetrics (slaFetchSettled True (Fulfilled r3) s))
       = or_zero (Option.bind (resp_data r3) r_totalBreaches)"
proof -
  have "summaryMetrics (dispatch (Table a) s) = summaryMetrics s"
    by (simp add: dispatch_eq summary_runEffects summary_handleTable)
  moreover have "list_all (\<lambda>r. summaryMetrics r = summaryMetrics s) (renders (Table a) s)"
    by (simp add: renders_def Let_def summary_runEffects summary_handleTable)
  moreover have "totalOutstanding (summaryMetrics s)
                   = sum_list (map outstandingAmount (agingData s))"
    by (simp add: summaryMetrics_def foldl_sum)
  moreover have "avgCompliance (summaryMetrics (complianceFetchSettled True (Fulfilled r2) s))
                   = or_zero (Option.bind (resp_data r2) overallComplianceRate)"
    by (simp add: summaryMetrics_def complianceFetchSettled_def)
  moreover have "totalBreaches (summaryMetrics (slaFetchSettled True (Fulfilled r3) s))
                   = or_zero (Option.bind (resp_data r3) r_totalBreaches)"
    by (simp add: summaryMetrics_def slaFetchSettled_def)
  ultimately show ?thesis
    by (simp add: summaryMetrics_def)
qed

subsection \<open>Unavailable summaries (C9)\<close>

text \<open>
  C9, as stated, fails for a failed fetch: the summary chain ends in an empty
  \<^verbatim>\<open>catch\<close>, which leaves the state as it is. After the weekly summary stored 100 as the
  released amount, a change of the time range followed by a failed fetch leaves 100 in
  place, not 0.
\<close>

theorem summary_failure_counterexample:
  "paymentsReleased
     (summaryFetchSettled True Rejected
        (dispatch (SetTimeRange Monthly)
           (summaryFetchSettled True
              (Fulfilled (Some \<lparr>data = Some \<lparr>released = Some 100, pending = Some 40\<rparr>\<rparr>))
              initialState))) = 100"
  by (simp add: summaryFetchSettled_def dispatch_eq runEffects_def initialState_def
        resp_data_def or_zero_def)

text \<open>
  C9, amended: when a fetch is fulfilled and the response, its data or the summary field is
  missing, the affected metric (released, pending, overall compliance rate, total breaches,
  average delay) takes the value 0; when a fetch fails, the transition is still defined and
  the affected metrics keep the value they had, which is 0 in the initial state: a failed
  summary fetch changes nothing, a failed compliance or SLA fetch changes at most the
  loading flag.
\<close>

theorem summary_defaults:
  "(Option.bind (resp_data r1) released = None \<longrightarrow>
      paymentsReleased (summaryFetchSettled True (Fulfilled r1) s) = 0)
   \<and> (Option.bind (resp_data r1) pending = None \<longrightarrow>
      pendingPayments (summaryFetchSettled True (Fulfilled r1) s) = 0)
   \<and> (Option.bind (resp_data r2) overallComplianceRate = None \<longrightarrow>
      overallCompliance (complianceFetchSettled True (Fulfilled r2) s) = 0)
   \<and> (Option.bind (resp_data r3) r_totalBreaches = None \<longrightarrow>
      totalSlaBreaches (slaFetchSettled True (Fulfilled r3) s) = 0)
   \<and> (Option.bind (resp_data r3) r_avgDelayAcrossAll = None \<longrightarrow>
      avgDelayAcrossAll (slaFetchSettled True (Fulfilled r3) s) = 0)
   \<and> summaryFetchSettled m Rejected s = s
   \<and> complianceFetchSettled m Rejected s = (if m then s\<lparr>loading := False\<rparr> else s)
   \<and> slaFetchSettled m Rejected s = (if m then s\<lparr>loading := False\<rparr> else s)
   \<and> paymentsReleased initialState = 0 \<and> pendingPayments initialState = 0
   \<and> overallCompliance initialState = 0 \<and> totalSlaBreaches initialState = 0
   \<and> avgDelayAcrossAll initialState = 0"
  by (simp add: summaryFetchSettled_def complianceFetchSettled_def slaFetchSettled_def
        or_zero_def initialState_def)

theorem summary_defaults_witness:
  "Option.bind (resp_data (Some \<lparr>data = Some \<lparr>released = None, pending = Some 40\<rparr>\<rparr>)) released
     = None
   \<and> paymentsReleased
       (summaryFetchSettled True
          (Fulfilled (Some \<lparr>data = Some \<lparr>released = None, pending = Some 40\<rparr>\<rparr>)) sampleState) = 0
   \<and> Option.bind (resp_data (None :: SlaData ApiResponse option)) r_totalBreaches = None
   \<and> totalSlaBreaches (slaFetchSettled True (Fulfilled None) sampleState) = 0
   \<and> overallCompliance
       (complianceFetchSettled True (Fulfilled (Some \<lparr>data = None\<rparr>)) sampleState) = 0"
  using summary_defaults
          [of "Some \<lparr>data = Some \<lparr>released = None, pending = Some 40\<rparr>\<rparr>" sampleState
              "Some \<lparr>data = None\<rparr>" None]
  by (simp add: resp_data_def)

subsection \<open>Independence of the tables (C10)\<close>

text \<open>
  C10, as stated, fails: the loading flag is one state variable, read by the bodies of all
  three tables. After mount every fetch is in flight and the compliance table shows its
  loading card. When the aging fetch settles, its \<^verbatim>\<open>finally\<close> clears the flag, and the
  compliance table, whose fetch has not settled, leaves the loading card for the notice of
  an empty table.
\<close>

theorem shared_loading_counterexample:
  "complianceTableBody (mountEffects initialState) = LoadingCard
   \<and> complianceTableBody
        (agingFetchSettled sampleGetTime 0 True (Fulfilled (Some \<lparr>data = Some []\<rparr>))
           (mountEffects initialState)) = NoRecords"
  by (simp add: complianceTableBody_def tableBody_def mountEffects_def initialState_def
        agingFetchSettled_def paginatedCompliance_def paginate_def slice_def
        filteredCompliance_def resp_data_def or_empty_def)

text \<open>
  C10, amended: besides the time range, the three tables share the single loading flag.
  The settling of one dataset's fetch changes at most that dataset's rows, the summary
  values stored from the same response, and the shared loading flag; every other state
  variable, so every other dataset's rows, every filter and every current page, stays as
  it was.
\<close>

theorem fetch_frame:
  "agingFetchSettled g n m r1 s
     = s\<lparr>agingData := agingData (agingFetchSettled g n m r1 s),
         loading := loading (agingFetchSettled g n m r1 s)\<rparr>
   \<and> complianceFetchSettled m r2 s
     = s\<lparr>complianceData := complianceData (complianceFetchSettled m r2 s),
         overallCompliance := overallCompliance (complianceFetchSettled m r2 s),
         loading := loading (complianceFetchSettled m r2 s)\<rparr>
   \<and> slaFetchSettled m r3 s
     = s\<lparr>slaBreachData := slaBreachData (slaFetchSettled m r3 s),
         totalSlaBreaches := totalSlaBreaches (slaFetchSettled m r3 s),
         avgDelayAcrossAll := avgDelayAcrossAll (slaFetchSettled m r3 s),
         loading := loading (slaFetchSettled m r3 s)\<rparr>"
  by (cases r1; cases r2; cases r3)
     (simp_all add: agingFetchSettled_def complianceFetchSettled_def slaFetchSettled_def)

end
